theory Spec2Isabelle
  imports Complex_Main
begin

section \<open>The activity tracking engine of app.py\<close>

text \<open>
  The engine is the part of \<^verbatim>\<open>app.py\<close> that owns the session: the two thresholds,
  \<^verbatim>\<open>format_time\<close>, \<^verbatim>\<open>get_activity_status\<close>, \<^verbatim>\<open>start_work_session\<close>,
  \<^verbatim>\<open>end_work_session\<close>, \<^verbatim>\<open>register_interaction\<close>, and the two read-only
  computations of the page body (the productivity figure and the slice of recent log
  entries).

  Conventions of the embedding.
  \<^item> \<^verbatim>\<open>st.session_state\<close> is a record that every operation takes and returns.
  \<^item> \<^verbatim>\<open>time.time()\<close> is an argument \<open>current_time\<close>; the string produced by
    \<^verbatim>\<open>datetime.now().strftime("%I:%M:%S %p")\<close> is a second argument \<open>stamp\<close>.
  \<^item> Seconds are Python floats; they are modelled by \<^typ>\<open>real\<close>, so comparison is exact
    and addition does not round. \<^verbatim>\<open>interaction_count\<close> is a Python int, hence \<^typ>\<open>int\<close>.
  \<^item> A field that holds \<^verbatim>\<open>None\<close> or a float is a \<^typ>\<open>real option\<close>.
  \<^item> A log entry is a dict with the keys timestamp, action, status and, on entries written
    by \<^verbatim>\<open>register_interaction\<close> only, gap; the optional key is an \<open>option\<close> field.
\<close>

subsection \<open>Constants\<close>

definition ACTIVE_THRESHOLD :: real where
  "ACTIVE_THRESHOLD = 60"

definition SHORT_BREAK_THRESHOLD :: real where
  "SHORT_BREAK_THRESHOLD = 300"

subsection \<open>Session state\<close>

record log_entry =
  timestamp :: string
  action :: string
  status :: string
  gap :: "string option"

record session_state =
  session_started :: bool
  session_start_time :: "real option"
  last_interaction_time :: "real option"
  total_active_time :: real
  total_inactive_time :: real
  interaction_count :: int
  activity_log :: "log_entry list"

text \<open>The state written by the initialisation block at the top of the script.\<close>

definition initial_state :: session_state where
  "initial_state =
     \<lparr>session_started = False, session_start_time = None, last_interaction_time = None,
      total_active_time = 0, total_inactive_time = 0, interaction_count = 0,
      activity_log = []\<rparr>"

datatype py_error = TypeError | ZeroDivisionError

subsection \<open>format_time\<close>

text \<open>
  Python's \<^verbatim>\<open>x // m\<close> and \<^verbatim>\<open>x % m\<close> on floats are the floor quotient and the
  remainder with the sign of the divisor; \<^verbatim>\<open>int(x)\<close> truncates towards zero;
  \<^verbatim>\<open>f"{n:02d}"\<close> prints an int in decimal, padded with zeros to width two, the sign
  counting towards the width.
\<close>

definition py_floordiv :: "real \<Rightarrow> real \<Rightarrow> real" where
  "py_floordiv x m = of_int \<lfloor>x / m\<rfloor>"

definition py_mod :: "real \<Rightarrow> real \<Rightarrow> real" where
  "py_mod x m = x - m * of_int \<lfloor>x / m\<rfloor>"

definition py_int :: "real \<Rightarrow> int" where
  "py_int x = (if 0 \<le> x then \<lfloor>x\<rfloor> else \<lceil>x\<rceil>)"

definition digit_char :: "nat \<Rightarrow> char" where
  "digit_char d = char_of (48 + d)"

function str_nat :: "nat \<Rightarrow> string" where
  "str_nat n = (if n < 10 then [digit_char n] else str_nat (n div 10) @ [digit_char (n mod 10)])"
  by pat_completeness auto
termination
  by (relation "measure (\<lambda>n. n)") auto

declare str_nat.simps [simp del]

definition fmt_02d :: "int \<Rightarrow> string" where
  "fmt_02d i =
     (if i < 0 then CHR ''-'' # str_nat (nat (- i))
      else (let s = str_nat (nat i) in if length s < 2 then CHR ''0'' # s else s))"

definition format_time :: "real \<Rightarrow> string" where
  "format_time seconds =
     (let hours = py_int (py_floordiv seconds 3600);
          minutes = py_int (py_floordiv (py_mod seconds 3600) 60);
          secs = py_int (py_mod seconds 60)
      in fmt_02d hours @ '':'' @ fmt_02d minutes @ '':'' @ fmt_02d secs)"

subsection \<open>get_activity_status\<close>

text \<open>The three emoji are written as their UTF-8 bytes (U+1F7E2, U+1F7E1, U+1F534).\<close>

definition green_circle :: string where
  "green_circle = [CHR 0xF0, CHR 0x9F, CHR 0x9F, CHR 0xA2]"

definition yellow_circle :: string where
  "yellow_circle = [CHR 0xF0, CHR 0x9F, CHR 0x9F, CHR 0xA1]"

definition red_circle :: string where
  "red_circle = [CHR 0xF0, CHR 0x9F, CHR 0x94, CHR 0xB4]"

definition get_activity_status :: "real \<Rightarrow> string \<times> string \<times> string" where
  "get_activity_status inactive_seconds =
     (if inactive_seconds < ACTIVE_THRESHOLD then (''Active'', ''green'', green_circle)
      else if inactive_seconds < SHORT_BREAK_THRESHOLD then (''Short Break'', ''orange'', yellow_circle)
      else (''Extended Inactivity'', ''red'', red_circle))"

subsection \<open>Session operations\<close>

definition start_work_session :: "real \<Rightarrow> string \<Rightarrow> session_state \<Rightarrow> session_state" where
  "start_work_session current_time stamp s =
     s\<lparr>session_started := True,
       session_start_time := Some current_time,
       last_interaction_time := Some current_time,
       total_active_time := 0,
       total_inactive_time := 0,
       interaction_count := 1,
       activity_log := [\<lparr>timestamp = stamp, action = ''Session Started'',
                         status = ''Active'', gap = None\<rparr>]\<rparr>"

definition end_work_session :: "session_state \<Rightarrow> session_state" where
  "end_work_session s =
     s\<lparr>session_started := False,
       session_start_time := None,
       last_interaction_time := None\<rparr>"

text \<open>The body of the \<^verbatim>\<open>if\<close>: classify the gap, add it to one counter, append the entry.\<close>

definition commit_gap :: "real \<Rightarrow> string \<Rightarrow> string \<Rightarrow> session_state \<Rightarrow> session_state" where
  "commit_gap time_gap stamp action_description s =
     (let (s1, status_text) =
            (if time_gap < ACTIVE_THRESHOLD
             then (s\<lparr>total_active_time := total_active_time s + time_gap\<rparr>, ''Active'')
             else if time_gap < SHORT_BREAK_THRESHOLD
             then (s\<lparr>total_inactive_time := total_inactive_time s + time_gap\<rparr>, ''Short Break'')
             else (s\<lparr>total_inactive_time := total_inactive_time s + time_gap\<rparr>,
                   ''Extended Inactivity''))
      in s1\<lparr>activity_log := activity_log s1 @
              [\<lparr>timestamp = stamp, action = action_description, status = status_text,
                gap = Some (format_time time_gap)\<rparr>]\<rparr>)"

text \<open>
  The test \<^verbatim>\<open>if st.session_state.last_interaction_time:\<close> is Python truthiness of a value
  that is \<^verbatim>\<open>None\<close> or a float: \<^verbatim>\<open>None\<close> is false, and so is the float \<^verbatim>\<open>0.0\<close>;
  every other float is true.
\<close>

definition register_interaction ::
  "real \<Rightarrow> string \<Rightarrow> string \<Rightarrow> session_state \<Rightarrow> session_state" where
  "register_interaction current_time stamp action_description s =
     (let s1 = (case last_interaction_time s of
                  None \<Rightarrow> s
                | Some t \<Rightarrow>
                    if t \<noteq> 0
                    then commit_gap (current_time - t) stamp action_description s
                    else s)
      in s1\<lparr>last_interaction_time := Some current_time,
            interaction_count := interaction_count s1 + 1\<rparr>)"

subsection \<open>The page body: metrics and the recent log\<close>

text \<open>
  Python's \<^verbatim>\<open>a / b\<close> raises \<^verbatim>\<open>ZeroDivisionError\<close> when \<open>b\<close> is zero, and
  subtracting \<^verbatim>\<open>None\<close> from a float raises \<^verbatim>\<open>TypeError\<close>.
\<close>

definition py_truediv :: "real \<Rightarrow> real \<Rightarrow> py_error + real" where
  "py_truediv a b = (if b = 0 then Inl ZeroDivisionError else Inr (a / b))"

definition py_sub_opt :: "real \<Rightarrow> real option \<Rightarrow> py_error + real" where
  "py_sub_opt a b = (case b of None \<Rightarrow> Inl TypeError | Some x \<Rightarrow> Inr (a - x))"

text \<open>
  The block under the comment \<^verbatim>\<open># Calculate productivity percentage\<close>, as a function
  of \<^verbatim>\<open>total_active_time\<close> and \<^verbatim>\<open>total_session_time\<close>.
\<close>

definition productivity :: "real \<Rightarrow> real \<Rightarrow> py_error + real" where
  "productivity active total_session_time =
     (if total_session_time > 0
      then (case py_truediv active total_session_time of
              Inl e \<Rightarrow> Inl e
            | Inr q \<Rightarrow> Inr (q * 100))
      else Inr 0)"

record metrics =
  m_total_session_time :: real
  m_total_active_time :: real
  m_total_inactive_time :: real
  m_productivity :: real

text \<open>
  The statistics the page computes at clock reading \<open>current_time\<close>:
  \<^verbatim>\<open>total_session_time = current_time - st.session_state.session_start_time\<close>, the two
  counters, and the productivity figure.
\<close>

definition session_metrics :: "real \<Rightarrow> session_state \<Rightarrow> py_error + metrics" where
  "session_metrics current_time s =
     (case py_sub_opt current_time (session_start_time s) of
        Inl e \<Rightarrow> Inl e
      | Inr total_session_time \<Rightarrow>
          (case productivity (total_active_time s) total_session_time of
             Inl e \<Rightarrow> Inl e
           | Inr p \<Rightarrow>
               Inr \<lparr>m_total_session_time = total_session_time,
                    m_total_active_time = total_active_time s,
                    m_total_inactive_time = total_inactive_time s,
                    m_productivity = p\<rparr>))"

text \<open>
  The status shown on every refresh:
  \<^verbatim>\<open>get_activity_status(current_time - st.session_state.last_interaction_time)\<close>.
\<close>

definition current_status :: "real \<Rightarrow> session_state \<Rightarrow> py_error + string \<times> string \<times> string" where
  "current_status current_time s =
     (case py_sub_opt current_time (last_interaction_time s) of
        Inl e \<Rightarrow> Inl e
      | Inr idle \<Rightarrow> Inr (get_activity_status idle))"

text \<open>
  Python's slice \<^verbatim>\<open>xs[start:]\<close>: a negative start counts from the end and is clipped
  at the front of the list; a start beyond the end is clipped at the end.
\<close>

definition py_slice_from :: "int \<Rightarrow> 'a list \<Rightarrow> 'a list" where
  "py_slice_from start xs =
     (let n = int (length xs);
          i = (if start < 0 then max 0 (n + start) else min start n)
      in drop (nat i) xs)"

text \<open>
  \<^verbatim>\<open>recent_logs = st.session_state.activity_log[-15:][::-1]\<close>: the slice from index
  \<open>-15\<close>, reversed. The expression reads the log and builds a new list; nothing is
  assigned to the session state.
\<close>

definition recent_logs :: "'a list \<Rightarrow> 'a list" where
  "recent_logs lg = rev (py_slice_from (- 15) lg)"

subsection \<open>Sequences of interactions\<close>

text \<open>
  A call of \<^verbatim>\<open>register_interaction\<close> is described by the clock reading, the formatted
  wall-clock string and the action description it runs with; a sequence of calls is run
  from left to right.
\<close>

fun run_interactions :: "(real \<times> string \<times> string) list \<Rightarrow> session_state \<Rightarrow> session_state" where
  "run_interactions [] s = s"
| "run_interactions ((t, stamp, a) # evs) s =
     run_interactions evs (register_interaction t stamp a s)"

text \<open>The gaps between consecutive clock readings, the first one measured from \<open>t0\<close>.\<close>

fun gaps :: "real \<Rightarrow> real list \<Rightarrow> real list" where
  "gaps t0 [] = []"
| "gaps t0 (t # ts) = (t - t0) # gaps t ts"

section \<open>Auxiliary facts\<close>

text \<open>What \<open>commit_gap\<close> does to each field of the state.\<close>

lemma commit_gap_fields:
  "session_started (commit_gap g stamp a s) = session_started s"
  "session_start_time (commit_gap g stamp a s) = session_start_time s"
  "last_interaction_time (commit_gap g stamp a s) = last_interaction_time s"
  "interaction_count (commit_gap g stamp a s) = interaction_count s"
  "total_active_time (commit_gap g stamp a s) = total_active_time s + (if g < 60 then g else 0)"
  "total_inactive_time (commit_gap g stamp a s) = total_inactive_time s + (if g < 60 then 0 else g)"
  "activity_log (commit_gap g stamp a s) =
     activity_log s @
       [\<lparr>timestamp = stamp, action = a, status = fst (get_activity_status g),
         gap = Some (format_time g)\<rparr>]"
  by (simp_all add: commit_gap_def get_activity_status_def ACTIVE_THRESHOLD_def
      SHORT_BREAK_THRESHOLD_def)

lemma status_Active_iff: "(fst (get_activity_status g) = ''Active'') = (g < 60)"
  by (simp add: get_activity_status_def ACTIVE_THRESHOLD_def SHORT_BREAK_THRESHOLD_def)

text \<open>
  When the previous interaction time is a float other than \<open>0.0\<close>, the call commits the gap
  and then moves the clock and the counter.
\<close>

lemma register_interaction_commits:
  assumes "last_interaction_time s = Some t0" and "t0 \<noteq> 0"
  shows "register_interaction t stamp a s =
           (commit_gap (t - t0) stamp a s)
             \<lparr>last_interaction_time := Some t, interaction_count := interaction_count s + 1\<rparr>"
  using assms by (simp add: register_interaction_def commit_gap_fields)

text \<open>
  The accounting of a run whose clock readings are not \<open>0.0\<close>: the active counter grows
  by the gaps below 60, the inactive counter by the others.
\<close>

lemma run_interactions_accounting:
  "last_interaction_time s = Some t0 \<Longrightarrow> t0 \<noteq> 0 \<Longrightarrow> 0 \<notin> fst ` set evs \<Longrightarrow>
     total_active_time (run_interactions evs s)
       = total_active_time s + sum_list (filter (\<lambda>g. g < 60) (gaps t0 (map fst evs)))
   \<and> total_inactive_time (run_interactions evs s)
       = total_inactive_time s + sum_list (filter (\<lambda>g. \<not> g < 60) (gaps t0 (map fst evs)))"
proof (induction evs arbitrary: s t0)
  case Nil
  then show ?case by simp
next
  case (Cons ev evs)
  obtain t stamp a where ev: "ev = (t, stamp, a)"
    by (cases ev)
  let ?s' = "register_interaction t stamp a s"
  have step: "?s' = (commit_gap (t - t0) stamp a s)
                      \<lparr>last_interaction_time := Some t,
                        interaction_count := interaction_count s + 1\<rparr>"
    using Cons.prems by (simp add: register_interaction_commits)
  have last': "last_interaction_time ?s' = Some t"
    by (simp add: step)
  have "t \<noteq> 0" and "0 \<notin> fst ` set evs"
    using Cons.prems ev by auto
  from Cons.IH [OF last' this] show ?case
    by (simp add: ev step commit_gap_fields)
qed

lemma sum_list_filter_split:
  "sum_list (filter P xs) + sum_list (filter (\<lambda>x. \<not> P x) xs) = sum_list (xs :: real list)"
  by (induction xs) auto

text \<open>The log of such a run: one entry with a gap is added per call, behind the old log.\<close>

lemma run_interactions_log:
  "last_interaction_time s = Some t0 \<Longrightarrow> t0 \<noteq> 0 \<Longrightarrow> 0 \<notin> fst ` set evs \<Longrightarrow>
     \<exists>es. activity_log (run_interactions evs s) = activity_log s @ es
          \<and> length es = length evs \<and> (\<forall>e \<in> set es. gap e \<noteq> None)"
proof (induction evs arbitrary: s t0)
  case Nil
  then show ?case by simp
next
  case (Cons ev evs)
  obtain t stamp a where ev: "ev = (t, stamp, a)"
    by (cases ev)
  let ?s' = "register_interaction t stamp a s"
  let ?e = "\<lparr>timestamp = stamp, action = a, status = fst (get_activity_status (t - t0)),
             gap = Some (format_time (t - t0))\<rparr>"
  have step: "?s' = (commit_gap (t - t0) stamp a s)
                      \<lparr>last_interaction_time := Some t,
                        interaction_count := interaction_count s + 1\<rparr>"
    using Cons.prems by (simp add: register_interaction_commits)
  have last': "last_interaction_time ?s' = Some t"
    by (simp add: step)
  have log': "activity_log ?s' = activity_log s @ [?e]"
    by (simp add: step commit_gap_fields)
  have "t \<noteq> 0" and "0 \<notin> fst ` set evs"
    using Cons.prems ev by auto
  from Cons.IH [OF last' this] obtain es where
    es: "activity_log (run_interactions evs ?s') = activity_log ?s' @ es"
        "length es = length evs" "\<forall>e \<in> set es. gap e \<noteq> None"
    by blast
  have "activity_log (run_interactions (ev # evs) s) = activity_log s @ (?e # es)"
    by (simp add: ev es(1) log')
  moreover have "length (?e # es) = length (ev # evs)"
    by (simp add: es(2))
  moreover have "\<forall>e \<in> set (?e # es). gap e \<noteq> None"
    using es(3) by simp
  ultimately show ?case
    by blast
qed

text \<open>The slice \<^verbatim>\<open>[-15:]\<close> drops all but the last 15 entries.\<close>

lemma recent_logs_drop: "recent_logs lg = rev (drop (length lg - 15) lg)"
  by (auto simp: recent_logs_def py_slice_from_def Let_def max_def
      intro!: arg_cong [where f = "\<lambda>k. drop k lg"])

section \<open>The gap classifier\<close>

text \<open>
  C1. For every gap value \<open>g\<close>, \<open>get_activity_status\<close> answers Active exactly when
  \<open>g < 60\<close>, Short Break exactly when \<open>60 \<le> g < 300\<close>, and Extended Inactivity exactly
  when \<open>g \<ge> 300\<close>; at the boundaries, 60 is a Short Break and 300 is Extended Inactivity.
\<close>

theorem get_activity_status_classes:
  "(fst (get_activity_status g) = ''Active'') = (g < 60)
   \<and> (fst (get_activity_status g) = ''Short Break'') = (60 \<le> g \<and> g < 300)
   \<and> (fst (get_activity_status g) = ''Extended Inactivity'') = (300 \<le> g)
   \<and> fst (get_activity_status 60) = ''Short Break''
   \<and> fst (get_activity_status 300) = ''Extended Inactivity''"
  by (simp add: get_activity_status_def ACTIVE_THRESHOLD_def SHORT_BREAK_THRESHOLD_def)

text \<open>
  C10. \<open>get_activity_status\<close> is total, and a negative gap is answered by the first
  branch: the result is the triple Active, green, green circle.
\<close>

theorem get_activity_status_negative:
  "g < 0 \<Longrightarrow> get_activity_status g = (''Active'', ''green'', green_circle)"
  by (simp add: get_activity_status_def ACTIVE_THRESHOLD_def)

theorem get_activity_status_negative_witness:
  "(-5::real) < 0 \<and> get_activity_status (-5) = (''Active'', ''green'', green_circle)"
  using get_activity_status_negative [of "-5"] by simp

section \<open>Accounting of committed gaps\<close>

text \<open>
  C2. After any sequence of \<open>register_interaction\<close> calls on an active session, the two
  counters together equal the sum of the committed gaps, and every gap went to exactly
  one counter, chosen by its classification. An active session holds the clock reading
  of its last interaction, and clock readings are positive Unix times. From any such
  state the active counter grows by the gaps classified Active and the inactive counter
  by the other gaps; for a session run from its start, where both counters are 0, the
  two counters add up to the sum of all gaps between consecutive interactions.
\<close>

theorem accounting_invariant:
  assumes "last_interaction_time s = Some t0" and "0 < t0"
    and "\<forall>t \<in> set (map fst evs). 0 < t"
  shows "total_active_time (run_interactions evs s)
           = total_active_time s
             + sum_list (filter (\<lambda>g. fst (get_activity_status g) = ''Active'')
                 (gaps t0 (map fst evs)))
         \<and> total_inactive_time (run_interactions evs s)
           = total_inactive_time s
             + sum_list (filter (\<lambda>g. fst (get_activity_status g) \<noteq> ''Active'')
                 (gaps t0 (map fst evs)))
         \<and> total_active_time (run_interactions evs s)
             + total_inactive_time (run_interactions evs s)
           = total_active_time s + total_inactive_time s + sum_list (gaps t0 (map fst evs))
         \<and> total_active_time (run_interactions evs (start_work_session t0 stamp0 s0))
             + total_inactive_time (run_interactions evs (start_work_session t0 stamp0 s0))
           = sum_list (gaps t0 (map fst evs))"
proof -
  let ?gs = "gaps t0 (map fst evs)"
  have nz: "t0 \<noteq> 0" "0 \<notin> fst ` set evs"
    using assms(2,3) by auto
  have split: "sum_list (filter (\<lambda>g. g < 60) ?gs) + sum_list (filter (\<lambda>g. \<not> g < 60) ?gs)
                 = sum_list ?gs"
    by (rule sum_list_filter_split)
  have here: "total_active_time (run_interactions evs s)
                = total_active_time s + sum_list (filter (\<lambda>g. g < 60) ?gs)"
             "total_inactive_time (run_interactions evs s)
                = total_inactive_time s + sum_list (filter (\<lambda>g. \<not> g < 60) ?gs)"
    using run_interactions_accounting [OF assms(1) nz] by simp_all
  let ?s1 = "start_work_session t0 stamp0 s0"
  have "last_interaction_time ?s1 = Some t0"
    by (simp add: start_work_session_def)
  from run_interactions_accounting [OF this nz]
  have fresh: "total_active_time (run_interactions evs ?s1)
                 = sum_list (filter (\<lambda>g. g < 60) ?gs)"
              "total_inactive_time (run_interactions evs ?s1)
                 = sum_list (filter (\<lambda>g. \<not> g < 60) ?gs)"
    by (simp_all add: start_work_session_def)
  show ?thesis
    using split by (simp add: here fresh status_Active_iff)
qed

theorem accounting_invariant_witness:
  "last_interaction_time (start_work_session 1000 ''09:00:00 AM'' initial_state) = Some 1000
   \<and> (0::real) < 1000
   \<and> (0::real) < 1030 \<and> (0::real) < 1280 \<and> (0::real) < 1680
   \<and> total_active_time
        (run_interactions [(1030, ''09:00:30 AM'', ''task1''), (1280, ''09:04:40 AM'', ''task2''),
                           (1680, ''09:11:20 AM'', ''task3'')]
           (start_work_session 1000 ''09:00:00 AM'' initial_state)) = 30
   \<and> total_inactive_time
        (run_interactions [(1030, ''09:00:30 AM'', ''task1''), (1280, ''09:04:40 AM'', ''task2''),
                           (1680, ''09:11:20 AM'', ''task3'')]
           (start_work_session 1000 ''09:00:00 AM'' initial_state)) = 650"
proof -
  let ?s = "start_work_session 1000 ''09:00:00 AM'' initial_state"
  let ?evs = "[(1030::real, ''09:00:30 AM'', ''task1''), (1280, ''09:04:40 AM'', ''task2''),
               (1680, ''09:11:20 AM'', ''task3'')]"
  have h1: "last_interaction_time ?s = Some 1000"
    by (simp add: start_work_session_def)
  have h2: "(0::real) < 1000"
    by simp
  have h3: "\<forall>t \<in> set (map fst ?evs). 0 < t"
    by simp
  have z: "total_active_time ?s = 0" "total_inactive_time ?s = 0"
    by (simp_all add: start_work_session_def)
  from accounting_invariant [OF h1 h2 h3]
  have "total_active_time (run_interactions ?evs ?s) = 30"
       "total_inactive_time (run_interactions ?evs ?s) = 650"
    by (simp_all add: z get_activity_status_def ACTIVE_THRESHOLD_def SHORT_BREAK_THRESHOLD_def)
  with h1 h2 h3 show ?thesis
    by simp
qed

section \<open>Interactions outside a session\<close>

text \<open>
  C3, as stated: after \<open>end_work_session\<close>, a call of \<open>register_interaction\<close> leaves the
  whole state unchanged. It does not: the last two assignments of the function run
  unconditionally. Here a session is started at clock reading 1000, ended, and an
  interaction is registered at 1100.
\<close>

theorem register_interaction_after_end_changes_state:
  "register_interaction 1100 ''09:18:20 AM'' ''Quick Check-in''
     (end_work_session (start_work_session 1000 ''09:16:40 AM'' initial_state))
   \<noteq> end_work_session (start_work_session 1000 ''09:16:40 AM'' initial_state)"
proof
  let ?s = "end_work_session (start_work_session 1000 ''09:16:40 AM'' initial_state)"
  assume "register_interaction 1100 ''09:18:20 AM'' ''Quick Check-in'' ?s = ?s"
  then have "interaction_count (register_interaction 1100 ''09:18:20 AM'' ''Quick Check-in'' ?s)
               = interaction_count ?s"
    by simp
  then show False
    by (simp add: register_interaction_def end_work_session_def start_work_session_def)
qed

text \<open>
  C3, amended: on every state whose session is not active, \<open>register_interaction\<close> is
  not a no-op. It keeps the session flag and the start time, sets
  \<open>last_interaction_time\<close> to the current clock reading and adds one to
  \<open>interaction_count\<close>. When \<open>last_interaction_time\<close> is \<^verbatim>\<open>None\<close> (the state left by
  \<open>end_work_session\<close>), both counters and the log are unchanged. When it holds a clock
  reading (left by an earlier call outside a session), the gap since that reading is
  classified, added to the matching counter and logged, exactly as in an active session.
\<close>

theorem register_interaction_not_active:
  assumes "\<not> session_started s"
  shows "\<not> session_started (register_interaction now stamp a s)
         \<and> session_start_time (register_interaction now stamp a s) = session_start_time s
         \<and> last_interaction_time (register_interaction now stamp a s) = Some now
         \<and> interaction_count (register_interaction now stamp a s) = interaction_count s + 1
         \<and> (last_interaction_time s = None \<longrightarrow>
              total_active_time (register_interaction now stamp a s) = total_active_time s
              \<and> total_inactive_time (register_interaction now stamp a s) = total_inactive_time s
              \<and> activity_log (register_interaction now stamp a s) = activity_log s)
         \<and> (\<forall>t. last_interaction_time s = Some t \<and> 0 < t \<longrightarrow>
              total_active_time (register_interaction now stamp a s)
                = total_active_time s + (if now - t < 60 then now - t else 0)
              \<and> total_inactive_time (register_interaction now stamp a s)
                = total_inactive_time s + (if now - t < 60 then 0 else now - t)
              \<and> activity_log (register_interaction now stamp a s)
                = activity_log s @
                    [\<lparr>timestamp = stamp, action = a,
                      status = fst (get_activity_status (now - t)),
                      gap = Some (format_time (now - t))\<rparr>])"
proof -
  have frame: "session_started (register_interaction now stamp a s) = session_started s"
    "session_start_time (register_interaction now stamp a s) = session_start_time s"
    "last_interaction_time (register_interaction now stamp a s) = Some now"
    "interaction_count (register_interaction now stamp a s) = interaction_count s + 1"
    by (simp_all add: register_interaction_def commit_gap_fields split: option.split)
  have absent: "last_interaction_time s = None \<longrightarrow>
              total_active_time (register_interaction now stamp a s) = total_active_time s
              \<and> total_inactive_time (register_interaction now stamp a s) = total_inactive_time s
              \<and> activity_log (register_interaction now stamp a s) = activity_log s"
    by (simp add: register_interaction_def)
  have present: "\<forall>t. last_interaction_time s = Some t \<and> 0 < t \<longrightarrow>
              total_active_time (register_interaction now stamp a s)
                = total_active_time s + (if now - t < 60 then now - t else 0)
              \<and> total_inactive_time (register_interaction now stamp a s)
                = total_inactive_time s + (if now - t < 60 then 0 else now - t)
              \<and> activity_log (register_interaction now stamp a s)
                = activity_log s @
                    [\<lparr>timestamp = stamp, action = a,
                      status = fst (get_activity_status (now - t)),
                      gap = Some (format_time (now - t))\<rparr>]"
    by (simp add: register_interaction_commits commit_gap_fields)
  from assms frame absent present show ?thesis
    by simp
qed

theorem register_interaction_not_active_witness:
  "\<not> session_started (end_work_session (start_work_session 1000 ''09:16:40 AM'' initial_state))
   \<and> interaction_count
        (register_interaction 1100 ''09:18:20 AM'' ''Quick Check-in''
          (end_work_session (start_work_session 1000 ''09:16:40 AM'' initial_state))) = 2
   \<and> \<not> session_started
        (register_interaction 1100 ''09:18:20 AM'' ''Quick Check-in''
          (end_work_session (start_work_session 1000 ''09:16:40 AM'' initial_state)))
   \<and> total_active_time
        (register_interaction 1130 ''09:18:50 AM'' ''Coffee Break''
          (register_interaction 1100 ''09:18:20 AM'' ''Quick Check-in''
            (end_work_session (start_work_session 1000 ''09:16:40 AM'' initial_state)))) = 30
   \<and> length (activity_log
        (register_interaction 1130 ''09:18:50 AM'' ''Coffee Break''
          (register_interaction 1100 ''09:18:20 AM'' ''Quick Check-in''
            (end_work_session (start_work_session 1000 ''09:16:40 AM'' initial_state))))) = 2"
proof -
  let ?s0 = "end_work_session (start_work_session 1000 ''09:16:40 AM'' initial_state)"
  let ?s1 = "register_interaction 1100 ''09:18:20 AM'' ''Quick Check-in'' ?s0"
  have n0: "\<not> session_started ?s0"
    by (simp add: end_work_session_def)
  have v0: "last_interaction_time ?s0 = None" "interaction_count ?s0 = 1"
    "total_active_time ?s0 = 0" "length (activity_log ?s0) = 1"
    by (simp_all add: end_work_session_def start_work_session_def)
  note first = register_interaction_not_active [OF n0, of 1100 "''09:18:20 AM''" "''Quick Check-in''"]
  from first have n1: "\<not> session_started ?s1"
    by simp
  from first v0 have v1: "last_interaction_time ?s1 = Some 1100" "interaction_count ?s1 = 2"
    "total_active_time ?s1 = 0" "length (activity_log ?s1) = 1"
    by simp_all
  note second = register_interaction_not_active [OF n1, of 1130 "''09:18:50 AM''" "''Coffee Break''"]
  from second v1 have
    "total_active_time (register_interaction 1130 ''09:18:50 AM'' ''Coffee Break'' ?s1) = 30"
    "length (activity_log (register_interaction 1130 ''09:18:50 AM'' ''Coffee Break'' ?s1)) = 2"
    by simp_all
  with n0 n1 v1 show ?thesis
    by simp
qed

section \<open>Scenario A\<close>

text \<open>
  C4. Scenario A, step by step. The scenario's time axis starts at the session start,
  whose clock reading \<open>T\<close> is a positive Unix time. The interaction 30 seconds later is
  Active and brings the active time to 30; the one at 280 is a Short Break and brings
  the inactive time to 250; the one at 680 is Extended Inactivity and brings it to 650.
  The final state has active time 30, inactive time 650, interaction count 4 and a log
  of 4 entries.
\<close>

theorem scenario_A:
  assumes "0 < T"
  shows "total_active_time
           (register_interaction (T + 30) st1 ''task1'' (start_work_session T st0 s)) = 30
         \<and> status (last (activity_log
             (register_interaction (T + 30) st1 ''task1'' (start_work_session T st0 s))))
           = ''Active''
         \<and> total_inactive_time
             (register_interaction (T + 280) st2 ''task2''
               (register_interaction (T + 30) st1 ''task1'' (start_work_session T st0 s))) = 250
         \<and> status (last (activity_log
             (register_interaction (T + 280) st2 ''task2''
               (register_interaction (T + 30) st1 ''task1'' (start_work_session T st0 s)))))
           = ''Short Break''
         \<and> register_interaction (T + 680) st3 ''task3''
             (register_interaction (T + 280) st2 ''task2''
               (register_interaction (T + 30) st1 ''task1'' (start_work_session T st0 s)))
           = \<lparr>session_started = True, session_start_time = Some T,
              last_interaction_time = Some (T + 680),
              total_active_time = 30, total_inactive_time = 650, interaction_count = 4,
              activity_log =
                [\<lparr>timestamp = st0, action = ''Session Started'', status = ''Active'',
                   gap = None\<rparr>,
                 \<lparr>timestamp = st1, action = ''task1'', status = ''Active'',
                   gap = Some (format_time 30)\<rparr>,
                 \<lparr>timestamp = st2, action = ''task2'', status = ''Short Break'',
                   gap = Some (format_time 250)\<rparr>,
                 \<lparr>timestamp = st3, action = ''task3'', status = ''Extended Inactivity'',
                   gap = Some (format_time 400)\<rparr>]\<rparr>"
proof -
  from assms have nz: "T \<noteq> 0" "T + 30 \<noteq> 0" "T + 280 \<noteq> 0"
    by simp_all
  then show ?thesis
    by (simp add: register_interaction_def commit_gap_def start_work_session_def
        ACTIVE_THRESHOLD_def SHORT_BREAK_THRESHOLD_def)
qed

theorem scenario_A_witness:
  "(0::real) < 1000
   \<and> total_active_time
        (register_interaction 1680 ''c'' ''task3''
          (register_interaction 1280 ''b'' ''task2''
            (register_interaction 1030 ''a'' ''task1''
              (start_work_session 1000 ''s'' initial_state)))) = 30
   \<and> total_inactive_time
        (register_interaction 1680 ''c'' ''task3''
          (register_interaction 1280 ''b'' ''task2''
            (register_interaction 1030 ''a'' ''task1''
              (start_work_session 1000 ''s'' initial_state)))) = 650
   \<and> interaction_count
        (register_interaction 1680 ''c'' ''task3''
          (register_interaction 1280 ''b'' ''task2''
            (register_interaction 1030 ''a'' ''task1''
              (start_work_session 1000 ''s'' initial_state)))) = 4
   \<and> length (activity_log
        (register_interaction 1680 ''c'' ''task3''
          (register_interaction 1280 ''b'' ''task2''
            (register_interaction 1030 ''a'' ''task1''
              (start_work_session 1000 ''s'' initial_state))))) = 4"
proof -
  have h: "(0::real) < 1000"
    by simp
  from scenario_A [OF h, of "''a''" "''s''" initial_state "''b''" "''c''"]
  have "register_interaction 1680 ''c'' ''task3''
          (register_interaction 1280 ''b'' ''task2''
            (register_interaction 1030 ''a'' ''task1''
              (start_work_session 1000 ''s'' initial_state)))
        = \<lparr>session_started = True, session_start_time = Some 1000,
           last_interaction_time = Some 1680,
           total_active_time = 30, total_inactive_time = 650, interaction_count = 4,
           activity_log =
             [\<lparr>timestamp = ''s'', action = ''Session Started'', status = ''Active'',
                gap = None\<rparr>,
              \<lparr>timestamp = ''a'', action = ''task1'', status = ''Active'',
                gap = Some (format_time 30)\<rparr>,
              \<lparr>timestamp = ''b'', action = ''task2'', status = ''Short Break'',
                gap = Some (format_time 250)\<rparr>,
              \<lparr>timestamp = ''c'', action = ''task3'', status = ''Extended Inactivity'',
                gap = Some (format_time 400)\<rparr>]\<rparr>"
    by simp
  then show ?thesis
    by simp
qed

section \<open>Starting and ending a session\<close>

text \<open>
  C5. From every prior state, \<open>start_work_session\<close> yields an active session whose
  counters are 0, whose interaction count is 1, whose start time and last interaction
  time are the current clock reading, and whose log is the single entry
  Session Started with status Active and no gap: nothing of the prior state survives.
\<close>

theorem start_work_session_resets:
  "start_work_session now stamp s
     = \<lparr>session_started = True, session_start_time = Some now,
        last_interaction_time = Some now,
        total_active_time = 0, total_inactive_time = 0, interaction_count = 1,
        activity_log =
          [\<lparr>timestamp = stamp, action = ''Session Started'', status = ''Active'',
            gap = None\<rparr>]\<rparr>
   \<and> length (activity_log (start_work_session now stamp s)) = 1"
  by (simp add: start_work_session_def)

text \<open>
  C6. \<open>end_work_session\<close> clears the session flag, the start time and the last interaction
  time, and leaves both counters, the interaction count and the log as they were. It is
  a total function with no error result.
\<close>

theorem end_work_session_frame:
  "session_started (end_work_session s) = False
   \<and> session_start_time (end_work_session s) = None
   \<and> last_interaction_time (end_work_session s) = None
   \<and> total_active_time (end_work_session s) = total_active_time s
   \<and> total_inactive_time (end_work_session s) = total_inactive_time s
   \<and> interaction_count (end_work_session s) = interaction_count s
   \<and> activity_log (end_work_session s) = activity_log s"
  by (simp add: end_work_session_def)

section \<open>Productivity\<close>

text \<open>
  C7. For a session started at clock reading \<open>t0\<close> and queried at \<open>now\<close>, the metrics are
  the session time \<open>now - t0\<close>, the two counters, and the productivity
  \<open>100 * total_active_time / (now - t0)\<close> when the session time is positive and 0
  otherwise. The computation never ends in the error of a division by zero; queried at
  the clock reading of the start, all four figures are 0.
\<close>

theorem session_metrics_productivity:
  assumes "session_start_time s = Some t0"
  shows "session_metrics now s
           = Inr \<lparr>m_total_session_time = now - t0,
                  m_total_active_time = total_active_time s,
                  m_total_inactive_time = total_inactive_time s,
                  m_productivity =
                    (if 0 < now - t0 then 100 * total_active_time s / (now - t0) else 0)\<rparr>
         \<and> session_metrics now s \<noteq> Inl ZeroDivisionError
         \<and> productivity active t = Inr (if 0 < t then 100 * active / t else 0)
         \<and> productivity active 0 = Inr 0
         \<and> productivity active t \<noteq> Inl ZeroDivisionError
         \<and> session_metrics now (start_work_session now stamp s0)
             = Inr \<lparr>m_total_session_time = 0, m_total_active_time = 0,
                    m_total_inactive_time = 0, m_productivity = 0\<rparr>"
  using assms
  by (simp add: productivity_def py_truediv_def session_metrics_def py_sub_opt_def
      start_work_session_def)

theorem session_metrics_productivity_witness:
  "session_start_time
     (register_interaction 1030 ''09:00:30 AM'' ''Quick Check-in''
       (start_work_session 1000 ''09:00:00 AM'' initial_state)) = Some 1000
   \<and> session_metrics 1120
        (register_interaction 1030 ''09:00:30 AM'' ''Quick Check-in''
          (start_work_session 1000 ''09:00:00 AM'' initial_state))
      = Inr \<lparr>m_total_session_time = 120, m_total_active_time = 30,
             m_total_inactive_time = 0, m_productivity = 25\<rparr>"
proof -
  let ?s = "register_interaction 1030 ''09:00:30 AM'' ''Quick Check-in''
              (start_work_session 1000 ''09:00:00 AM'' initial_state)"
  have h: "session_start_time ?s = Some 1000"
    by (simp add: register_interaction_def commit_gap_fields start_work_session_def)
  have v: "total_active_time ?s = 30" "total_inactive_time ?s = 0"
    by (simp_all add: register_interaction_def commit_gap_fields start_work_session_def)
  from session_metrics_productivity [OF h, of 1120]
  have "session_metrics 1120 ?s
          = Inr \<lparr>m_total_session_time = 120, m_total_active_time = 30,
                 m_total_inactive_time = 0, m_productivity = 25\<rparr>"
    by (simp add: v)
  with h show ?thesis
    by simp
qed

section \<open>The recent log\<close>

text \<open>
  C8. The recent log is the expression \<^verbatim>\<open>activity_log[-15:][::-1]\<close>; the source has this
  one limit, 15. For every log, the result is the first 15 entries of the reversed log:
  its entry number \<open>i\<close> is the log's entry number \<open>i\<close> counted from the end, so the newest
  comes first. It has at most 15 entries and at most as many as the log, and it is the
  whole reversed log when the log has no more than 15 entries. The expression builds a
  new list from the log and assigns nothing, so the log is not changed.
\<close>

theorem recent_logs_most_recent_first:
  "recent_logs lg = take 15 (rev lg)
   \<and> length (recent_logs lg) = min 15 (length lg)
   \<and> length (recent_logs lg) \<le> 15
   \<and> length (recent_logs lg) \<le> length lg
   \<and> (\<forall>i < length (recent_logs lg). recent_logs lg ! i = lg ! (length lg - 1 - i))
   \<and> (length lg \<le> 15 \<longrightarrow> recent_logs lg = rev lg)"
proof -
  have eq: "recent_logs lg = take 15 (rev lg)"
    by (simp add: recent_logs_drop take_rev)
  have len: "length (recent_logs lg) = min 15 (length lg)"
    by (simp add: eq)
  have nth: "\<forall>i < length (recent_logs lg). recent_logs lg ! i = lg ! (length lg - 1 - i)"
  proof (intro allI impI)
    fix i
    assume "i < length (recent_logs lg)"
    then have i: "i < 15" "i < length lg"
      by (simp_all add: len)
    then have "recent_logs lg ! i = rev lg ! i"
      by (simp add: eq)
    also have "\<dots> = lg ! (length lg - 1 - i)"
      using i(2) by (simp add: rev_nth)
    finally show "recent_logs lg ! i = lg ! (length lg - 1 - i)" .
  qed
  from eq len nth show ?thesis
    by simp
qed

theorem recent_logs_most_recent_first_witness:
  "recent_logs [1, 2, 3, 4, 5, 6, 7, 8, 9, 10, 11, 12, 13, 14, 15, 16, 17 :: nat]
     = [17, 16, 15, 14, 13, 12, 11, 10, 9, 8, 7, 6, 5, 4, 3]
   \<and> (0::nat) < length (recent_logs [1, 2, 3, 4, 5, 6, 7, 8, 9, 10, 11, 12, 13, 14, 15, 16, 17 :: nat])
   \<and> recent_logs [1, 2, 3, 4, 5, 6, 7, 8, 9, 10, 11, 12, 13, 14, 15, 16, 17 :: nat] ! 0 = 17
   \<and> length [1, 2, 3 :: nat] \<le> 15
   \<and> recent_logs [1, 2, 3 :: nat] = [3, 2, 1]"
proof -
  let ?long = "[1, 2, 3, 4, 5, 6, 7, 8, 9, 10, 11, 12, 13, 14, 15, 16, 17 :: nat]"
  note long = recent_logs_most_recent_first [of ?long]
  from long have cut: "recent_logs ?long = [17, 16, 15, 14, 13, 12, 11, 10, 9, 8, 7, 6, 5, 4, 3]"
    by simp
  from long have pos: "0 < length (recent_logs ?long)"
    by simp
  from long pos have first: "recent_logs ?long ! 0 = ?long ! (length ?long - 1 - 0)"
    by blast
  have short: "length [1, 2, 3 :: nat] \<le> 15"
    by simp
  from recent_logs_most_recent_first [of "[1, 2, 3 :: nat]"] short
  have "recent_logs [1, 2, 3 :: nat] = [3, 2, 1]"
    by simp
  with cut pos first short show ?thesis
    by simp
qed

section \<open>The log under register_interaction\<close>

text \<open>
  C9. The log is append-only under \<open>register_interaction\<close>. An active session holds the
  clock reading of its last interaction, a positive Unix time. Every call on such a
  state returns the previous log with exactly one entry appended at the end; the new
  entry carries the formatted gap, and the entries already in the log stay as they were.
  The call leaves its own clock reading behind, so the same holds for the next call.
  The entry written by \<open>start_work_session\<close> has no gap, and in any run from the start of
  a session it stays the first entry, followed by one entry with a gap per call.
\<close>

theorem register_interaction_appends:
  assumes "last_interaction_time s = Some t0" and "0 < t0"
  shows "activity_log (register_interaction t stamp a s)
           = activity_log s @
               [\<lparr>timestamp = stamp, action = a, status = fst (get_activity_status (t - t0)),
                 gap = Some (format_time (t - t0))\<rparr>]
         \<and> length (activity_log (register_interaction t stamp a s))
             = length (activity_log s) + 1
         \<and> take (length (activity_log s)) (activity_log (register_interaction t stamp a s))
             = activity_log s
         \<and> gap (last (activity_log (register_interaction t stamp a s)))
             = Some (format_time (t - t0))
         \<and> last_interaction_time (register_interaction t stamp a s) = Some t
         \<and> session_started (register_interaction t stamp a s) = session_started s
         \<and> map gap (activity_log (start_work_session t0 stamp0 s0)) = [None]
         \<and> ((\<forall>u \<in> set (map fst evs). 0 < u) \<longrightarrow>
              (\<exists>es. activity_log (run_interactions evs (start_work_session t0 stamp0 s0))
                      = \<lparr>timestamp = stamp0, action = ''Session Started'', status = ''Active'',
                          gap = None\<rparr> # es
                    \<and> length es = length evs \<and> (\<forall>e \<in> set es. gap e \<noteq> None)))"
proof -
  from assms(2) have nz: "t0 \<noteq> 0"
    by simp
  have step: "register_interaction t stamp a s =
                (commit_gap (t - t0) stamp a s)
                  \<lparr>last_interaction_time := Some t,
                    interaction_count := interaction_count s + 1\<rparr>"
    using assms(1) nz by (rule register_interaction_commits)
  have one: "activity_log (register_interaction t stamp a s)
               = activity_log s @
                   [\<lparr>timestamp = stamp, action = a, status = fst (get_activity_status (t - t0)),
                     gap = Some (format_time (t - t0))\<rparr>]"
    by (simp add: step commit_gap_fields)
  have rest: "last_interaction_time (register_interaction t stamp a s) = Some t"
    "session_started (register_interaction t stamp a s) = session_started s"
    by (simp_all add: step commit_gap_fields)
  have start: "activity_log (start_work_session t0 stamp0 s0)
                 = [\<lparr>timestamp = stamp0, action = ''Session Started'', status = ''Active'',
                     gap = None\<rparr>]"
              "last_interaction_time (start_work_session t0 stamp0 s0) = Some t0"
    by (simp_all add: start_work_session_def)
  have run: "(\<forall>u \<in> set (map fst evs). 0 < u) \<longrightarrow>
              (\<exists>es. activity_log (run_interactions evs (start_work_session t0 stamp0 s0))
                      = \<lparr>timestamp = stamp0, action = ''Session Started'', status = ''Active'',
                          gap = None\<rparr> # es
                    \<and> length es = length evs \<and> (\<forall>e \<in> set es. gap e \<noteq> None))"
  proof
    assume "\<forall>u \<in> set (map fst evs). 0 < u"
    then have "0 \<notin> fst ` set evs"
      by auto
    from run_interactions_log [OF start(2) nz this] show
      "\<exists>es. activity_log (run_interactions evs (start_work_session t0 stamp0 s0))
                      = \<lparr>timestamp = stamp0, action = ''Session Started'', status = ''Active'',
                          gap = None\<rparr> # es
                    \<and> length es = length evs \<and> (\<forall>e \<in> set es. gap e \<noteq> None)"
      by (simp add: start(1))
  qed
  from one rest start(1) run show ?thesis
    by simp
qed

theorem register_interaction_appends_witness:
  "last_interaction_time (start_work_session 1000 ''09:00:00 AM'' initial_state) = Some 1000
   \<and> (0::real) < 1000
   \<and> (0::real) < 1030
   \<and> activity_log (register_interaction 1030 ''09:00:30 AM'' ''task1''
        (start_work_session 1000 ''09:00:00 AM'' initial_state))
      = [\<lparr>timestamp = ''09:00:00 AM'', action = ''Session Started'', status = ''Active'',
           gap = None\<rparr>,
         \<lparr>timestamp = ''09:00:30 AM'', action = ''task1'', status = ''Active'',
           gap = Some (format_time 30)\<rparr>]
   \<and> length (activity_log (run_interactions [(1030, ''09:00:30 AM'', ''task1'')]
        (start_work_session 1000 ''09:00:00 AM'' initial_state))) = 2"
proof -
  let ?s = "start_work_session 1000 ''09:00:00 AM'' initial_state"
  let ?evs = "[(1030::real, ''09:00:30 AM'', ''task1'')]"
  have h1: "last_interaction_time ?s = Some 1000"
    by (simp add: start_work_session_def)
  have h2: "(0::real) < 1000"
    by simp
  have h3: "\<forall>u \<in> set (map fst ?evs). 0 < u"
    by simp
  have lg: "activity_log ?s
              = [\<lparr>timestamp = ''09:00:00 AM'', action = ''Session Started'', status = ''Active'',
                  gap = None\<rparr>]"
    by (simp add: start_work_session_def)
  note inst = register_interaction_appends [OF h1 h2, where t = 1030 and stamp = "''09:00:30 AM''"
      and a = "''task1''" and evs = ?evs and stamp0 = "''09:00:00 AM''" and ?s0.0 = initial_state]
  from inst have one:
    "activity_log (register_interaction 1030 ''09:00:30 AM'' ''task1'' ?s)
       = [\<lparr>timestamp = ''09:00:00 AM'', action = ''Session Started'', status = ''Active'',
            gap = None\<rparr>,
          \<lparr>timestamp = ''09:00:30 AM'', action = ''task1'', status = ''Active'',
            gap = Some (format_time 30)\<rparr>]"
    by (simp add: lg get_activity_status_def ACTIVE_THRESHOLD_def)
  from inst h3 obtain es where
    "activity_log (run_interactions ?evs ?s)
       = \<lparr>timestamp = ''09:00:00 AM'', action = ''Session Started'', status = ''Active'',
           gap = None\<rparr> # es"
    and "length es = length ?evs"
    by blast
  then have two: "length (activity_log (run_interactions ?evs ?s)) = 2"
    by simp
  from h1 h2 one two show ?thesis
    by simp
qed

end
